theory Spec2Isabelle
  imports Complex_Main "HOL-Library.AList"
begin

section \<open>JavaScript values used by the route handlers\<close>

text \<open>
  A JavaScript number is NaN, an infinity or a finite value. Finite values are kept as
  reals: the handlers only compare them with the constants 0, 1, 100 and take minima
  and maxima, and rounding to a double is monotone and fixes those constants.
\<close>

datatype jsnum = NaN | NegInf | Fin real | PosInf

fun isNaN :: "jsnum \<Rightarrow> bool" where
  "isNaN NaN = True"
| "isNaN _ = False"

fun jsNeg :: "jsnum \<Rightarrow> jsnum" where
  "jsNeg NaN = NaN"
| "jsNeg NegInf = PosInf"
| "jsNeg (Fin x) = Fin (- x)"
| "jsNeg PosInf = NegInf"

text \<open>\<^verbatim>\<open>Math.min\<close> and \<^verbatim>\<open>Math.max\<close> of two arguments: NaN if either is NaN.\<close>

fun mathMin :: "jsnum \<Rightarrow> jsnum \<Rightarrow> jsnum" where
  "mathMin NaN _ = NaN"
| "mathMin _ NaN = NaN"
| "mathMin NegInf _ = NegInf"
| "mathMin _ NegInf = NegInf"
| "mathMin PosInf y = y"
| "mathMin x PosInf = x"
| "mathMin (Fin a) (Fin b) = Fin (min a b)"

fun mathMax :: "jsnum \<Rightarrow> jsnum \<Rightarrow> jsnum" where
  "mathMax NaN _ = NaN"
| "mathMax _ NaN = NaN"
| "mathMax PosInf _ = PosInf"
| "mathMax _ PosInf = PosInf"
| "mathMax NegInf y = y"
| "mathMax x NegInf = x"
| "mathMax (Fin a) (Fin b) = Fin (max a b)"

text \<open>
  Values stored in metadata objects. An object is an association list, in key order;
  \<^verbatim>\<open>x || y\<close> yields \<^verbatim>\<open>x\<close> when it is truthy and \<^verbatim>\<open>y\<close> otherwise.
\<close>

datatype jsval = JUndefined | JNull | JBool bool | JNum jsnum | JStr string
  | JObj "(string \<times> jsval) list"

type_synonym jsobject = "(string \<times> jsval) list"

fun truthy :: "jsval \<Rightarrow> bool" where
  "truthy JUndefined = False"
| "truthy JNull = False"
| "truthy (JBool b) = b"
| "truthy (JNum NaN) = False"
| "truthy (JNum (Fin x)) = (x \<noteq> 0)"
| "truthy (JNum _) = True"
| "truthy (JStr s) = (s \<noteq> [])"
| "truthy (JObj _) = True"

definition jsOr :: "jsval \<Rightarrow> jsval \<Rightarrow> jsval" where
  "jsOr x y = (if truthy x then x else y)"

text \<open>Property read \<^verbatim>\<open>obj.key\<close>: \<^verbatim>\<open>undefined\<close> when the key is missing.\<close>

definition getProp :: "jsobject \<Rightarrow> string \<Rightarrow> jsval" where
  "getProp obj k = (case map_of obj k of None \<Rightarrow> JUndefined | Some v \<Rightarrow> v)"

text \<open>\<^verbatim>\<open>'key' in obj\<close>.\<close>

definition hasProp :: "jsobject \<Rightarrow> string \<Rightarrow> bool" where
  "hasProp obj k = (map_of obj k \<noteq> None)"

subsection \<open>Strings: white space, trimming, parsing numbers\<close>

text \<open>
  The white space and line terminator characters that \<^verbatim>\<open>String.prototype.trim\<close>
  and the number parsers skip, among the one-byte characters: tab, line feed, vertical
  tab, form feed, carriage return, space and no-break space.
\<close>

definition isWhiteSpace :: "char \<Rightarrow> bool" where
  "isWhiteSpace c = (of_char c \<in> {9, 10, 11, 12, 13, 32, 160 :: nat})"

definition trimStart :: "string \<Rightarrow> string" where
  "trimStart s = dropWhile isWhiteSpace s"

definition trim :: "string \<Rightarrow> string" where
  "trim s = rev (dropWhile isWhiteSpace (rev (dropWhile isWhiteSpace s)))"

definition isDigit :: "char \<Rightarrow> bool" where
  "isDigit c = (48 \<le> (of_char c :: nat) \<and> (of_char c :: nat) \<le> 57)"

definition digitVal :: "char \<Rightarrow> nat" where
  "digitVal c = of_char c - 48"

definition digitsVal :: "string \<Rightarrow> nat" where
  "digitsVal ds = foldl (\<lambda>n c. 10 * n + digitVal c) 0 ds"

text \<open>
  \<^verbatim>\<open>Number.parseInt(s, 10)\<close>: skip leading white space, read an optional sign, then
  the longest run of decimal digits; NaN when there is no digit.
\<close>

definition parseInt10 :: "string \<Rightarrow> jsnum" where
  "parseInt10 s =
     (let t = trimStart s;
          neg = (t \<noteq> [] \<and> hd t = CHR ''-'');
          r = (if t \<noteq> [] \<and> (hd t = CHR ''+'' \<or> hd t = CHR ''-'') then tl t else t);
          z = takeWhile isDigit r
      in if z = [] then NaN
         else if neg then Fin (- real (digitsVal z)) else Fin (real (digitsVal z)))"

text \<open>
  \<^verbatim>\<open>Number.parseFloat(s)\<close>: skip leading white space and read the longest prefix that
  is a decimal literal: an optional sign, then \<^verbatim>\<open>Infinity\<close>, or digits with an optional
  fraction and an optional exponent. NaN when no prefix is a literal.
\<close>

definition parseExponent :: "string \<Rightarrow> int" where
  "parseExponent r =
     (case r of
        [] \<Rightarrow> 0
      | c # r1 \<Rightarrow>
          if c = CHR ''e'' \<or> c = CHR ''E'' then
            (let neg = (r1 \<noteq> [] \<and> hd r1 = CHR ''-'');
                 r2 = (if r1 \<noteq> [] \<and> (hd r1 = CHR ''+'' \<or> hd r1 = CHR ''-'') then tl r1 else r1);
                 ds = takeWhile isDigit r2
             in if ds = [] then 0
                else if neg then - int (digitsVal ds) else int (digitsVal ds))
          else 0)"

definition scale10 :: "real \<Rightarrow> int \<Rightarrow> real" where
  "scale10 m e = (if 0 \<le> e then m * 10 ^ nat e else m / 10 ^ nat (- e))"

definition parseUnsigned :: "string \<Rightarrow> jsnum" where
  "parseUnsigned s =
     (if take 8 s = ''Infinity'' then PosInf
      else
        (let ip = takeWhile isDigit s; r1 = dropWhile isDigit s
         in if r1 \<noteq> [] \<and> hd r1 = CHR ''.'' then
              (let fp = takeWhile isDigit (tl r1); r3 = dropWhile isDigit (tl r1)
               in if ip = [] \<and> fp = [] then NaN
                  else Fin (scale10 (real (digitsVal ip) + real (digitsVal fp) / 10 ^ length fp)
                              (parseExponent r3)))
            else if ip = [] then NaN
            else Fin (scale10 (real (digitsVal ip)) (parseExponent r1))))"

definition parseFloat :: "string \<Rightarrow> jsnum" where
  "parseFloat s =
     (let t = trimStart s
      in if t \<noteq> [] \<and> hd t = CHR ''-'' then jsNeg (parseUnsigned (tl t))
         else if t \<noteq> [] \<and> hd t = CHR ''+'' then parseUnsigned (tl t)
         else parseUnsigned t)"

section \<open>Data shared by the route handlers (routes.ts)\<close>

text \<open>A call to a collaborator either throws (with the error's message) or returns.\<close>

datatype 'a outcome = Throws string | Returns 'a

text \<open>
  The runtime's \<^verbatim>\<open>Memory\<close> rows, for documents and for fragments. \<^verbatim>\<open>embedding\<close>,
  \<^verbatim>\<open>similarity\<close> and \<^verbatim>\<open>metadata\<close> are optional fields.
\<close>

record memory =
  mem_id :: string
  mem_entityId :: string
  mem_agentId :: string
  mem_roomId :: string
  mem_content :: jsval
  mem_createdAt :: nat
  mem_embedding :: "jsnum list option"
  mem_similarity :: "jsnum option"
  mem_metadata :: "jsobject option"

text \<open>The argument of \<^verbatim>\<open>runtime.searchMemories\<close>.\<close>

record search_params =
  sp_tableName :: string
  sp_embedding :: "jsnum list"
  sp_query :: string
  sp_count :: jsnum
  sp_match_threshold :: jsnum
  sp_roomId :: string

text \<open>The argument of \<^verbatim>\<open>service.getMemories\<close>.\<close>

record getmem_params =
  gm_tableName :: string
  gm_count :: jsnum
  gm_end :: "jsnum option"

record service =
  getMemories :: "getmem_params \<Rightarrow> memory list outcome"

text \<open>
  The part of \<^verbatim>\<open>IAgentRuntime\<close> the handlers use. \<^verbatim>\<open>getService\<close> is \<open>None\<close> when
  the KnowledgeService is not registered. \<^verbatim>\<open>createUniqueUuid\<close> is the core library's
  function of the runtime and a base string.
\<close>

record runtime =
  getService :: "service option"
  rt_agentId :: string
  useModel :: "string \<Rightarrow> jsnum list outcome"
  searchMemories :: "search_params \<Rightarrow> memory list outcome"
  getMemoryById :: "jsval \<Rightarrow> memory option outcome"
  createUniqueUuid :: "string \<Rightarrow> string"

text \<open>The calls a handler makes on the embedding model and the memory store, in order.\<close>

datatype call = UseModel string | SearchMemories search_params | GetMemoryById jsval

record search_result =
  res_id :: string
  res_content :: jsval
  res_similarity :: jsnum
  res_metadata :: jsobject

text \<open>
  What a handler sends: \<^verbatim>\<open>sendSuccess(res, data, status)\<close> or
  \<^verbatim>\<open>sendError(res, status, code, message, details)\<close>.
\<close>

datatype payload =
    SearchData string jsnum "search_result list" nat
  | DocumentsData "memory list" bool nat nat
  | DocumentData memory
  | NullData

datatype response =
    SendSuccess nat payload
  | SendError nat string string "string option"

section \<open>searchKnowledgeHandler\<close>

text \<open>The query string of a search request: \<^verbatim>\<open>req.query.q\<close> and so on, each absent or a string.\<close>

record search_query =
  sq_q :: "string option"
  sq_threshold :: "string option"
  sq_limit :: "string option"
  sq_agentId :: "string option"

text \<open>\<^verbatim>\<open>req.query.x ? parse(req.query.x) : NaN\<close>: an absent or empty string is falsy.\<close>

definition parsedThreshold :: "search_query \<Rightarrow> jsnum" where
  "parsedThreshold req =
     (case sq_threshold req of
        None \<Rightarrow> NaN
      | Some s \<Rightarrow> if s \<noteq> [] then parseFloat s else NaN)"

definition matchThreshold :: "search_query \<Rightarrow> jsnum" where
  "matchThreshold req =
     (let m = (if isNaN (parsedThreshold req) then Fin (1/2) else parsedThreshold req)
      in mathMax (Fin 0) (mathMin (Fin 1) m))"

definition parsedLimit :: "search_query \<Rightarrow> jsnum" where
  "parsedLimit req =
     (case sq_limit req of
        None \<Rightarrow> NaN
      | Some s \<Rightarrow> if s \<noteq> [] then parseInt10 s else NaN)"

definition searchLimit :: "search_query \<Rightarrow> jsnum" where
  "searchLimit req =
     (let l = (if isNaN (parsedLimit req) then Fin 20 else parsedLimit req)
      in mathMax (Fin 1) (mathMin (Fin 100) l))"

definition searchAgentId :: "runtime \<Rightarrow> search_query \<Rightarrow> string" where
  "searchAgentId rt req =
     (case sq_agentId req of
        None \<Rightarrow> rt_agentId rt
      | Some a \<Rightarrow> if a \<noteq> [] then a else rt_agentId rt)"

definition searchParams :: "runtime \<Rightarrow> search_query \<Rightarrow> string \<Rightarrow> jsnum list \<Rightarrow> search_params" where
  "searchParams rt req searchText embedding =
     \<lparr> sp_tableName = ''knowledge'', sp_embedding = embedding, sp_query = searchText,
       sp_count = searchLimit req, sp_match_threshold = matchThreshold req,
       sp_roomId = searchAgentId rt req \<rparr>"

text \<open>
  The body of the \<^verbatim>\<open>results.map\<close> callback: the title and filename of the parent
  document, with the placeholders kept when the fragment names no document, when
  \<^verbatim>\<open>getMemoryById\<close> throws (the inner \<^verbatim>\<open>catch\<close> only logs), or when it returns no
  document or one without metadata.
\<close>

definition documentInfo :: "runtime \<Rightarrow> memory \<Rightarrow> (jsval \<times> jsval) \<times> call list" where
  "documentInfo rt fragment =
     (let documentTitle = JStr ''Unknown Document''; documentFilename = JStr ''unknown''
      in case mem_metadata fragment of
           None \<Rightarrow> ((documentTitle, documentFilename), [])
         | Some md \<Rightarrow>
             if hasProp md ''documentId'' then
               (let documentId = getProp md ''documentId''
                in case getMemoryById rt documentId of
                     Throws e \<Rightarrow> ((documentTitle, documentFilename), [GetMemoryById documentId])
                   | Returns None \<Rightarrow> ((documentTitle, documentFilename), [GetMemoryById documentId])
                   | Returns (Some document) \<Rightarrow>
                       (case mem_metadata document of
                          None \<Rightarrow> ((documentTitle, documentFilename), [GetMemoryById documentId])
                        | Some dmd \<Rightarrow>
                            ((jsOr (jsOr (getProp dmd ''title'') (getProp dmd ''filename'')) documentTitle,
                              jsOr (getProp dmd ''filename'') documentFilename),
                             [GetMemoryById documentId])))
             else ((documentTitle, documentFilename), []))"

definition enhanceFragment :: "runtime \<Rightarrow> memory \<Rightarrow> search_result \<times> call list" where
  "enhanceFragment rt fragment =
     (case documentInfo rt fragment of
        ((documentTitle, documentFilename), calls) \<Rightarrow>
          (\<lparr> res_id = mem_id fragment,
             res_content = mem_content fragment,
             res_similarity =
               (case mem_similarity fragment of
                  None \<Rightarrow> Fin 0
                | Some x \<Rightarrow> if truthy (JNum x) then x else Fin 0),
             res_metadata =
               AList.update ''documentFilename'' documentFilename
                 (AList.update ''documentTitle'' documentTitle
                    (case mem_metadata fragment of None \<Rightarrow> [] | Some md \<Rightarrow> md)) \<rparr>,
           calls))"

definition searchKnowledgeHandler :: "runtime \<Rightarrow> search_query \<Rightarrow> response \<times> call list" where
  "searchKnowledgeHandler rt req =
     (case getService rt of
        None \<Rightarrow> (SendError 500 ''SERVICE_NOT_FOUND'' ''KnowledgeService not found'' None, [])
      | Some svc \<Rightarrow>
          (case sq_q req of
             None \<Rightarrow> (SendError 400 ''INVALID_QUERY'' ''Search query cannot be empty'' None, [])
           | Some searchText \<Rightarrow>
               if searchText = [] \<or> length (trim searchText) = 0 then
                 (SendError 400 ''INVALID_QUERY'' ''Search query cannot be empty'' None, [])
               else
                 (case useModel rt searchText of
                    Throws e \<Rightarrow>
                      (SendError 500 ''SEARCH_ERROR'' ''Failed to search knowledge'' (Some e),
                       [UseModel searchText])
                  | Returns embedding \<Rightarrow>
                      (let ps = searchParams rt req searchText embedding
                       in case searchMemories rt ps of
                            Throws e \<Rightarrow>
                              (SendError 500 ''SEARCH_ERROR'' ''Failed to search knowledge'' (Some e),
                               [UseModel searchText, SearchMemories ps])
                          | Returns results \<Rightarrow>
                              (let enhanced = map (enhanceFragment rt) results
                               in (SendSuccess 200
                                     (SearchData searchText (matchThreshold req)
                                        (map fst enhanced) (length (map fst enhanced))),
                                   [UseModel searchText, SearchMemories ps]
                                     @ concat (map snd enhanced)))))))"

section \<open>Document identities (routes.ts, actions.ts)\<close>

text \<open>The decimal rendering of a non-negative integer, as a template string prints it.\<close>

definition digitChar :: "nat \<Rightarrow> char" where
  "digitChar d = char_of (48 + d)"

fun showNat :: "nat \<Rightarrow> string" where
  "showNat n = (if n < 10 then [digitChar n] else showNat (n div 10) @ [digitChar (n mod 10)])"

declare showNat.simps [simp del]

text \<open>Modelled from the spec: \<^verbatim>\<open>normalizeS3Url\<close> of utils.ts, which is not among the
  sources. The spec says that it strips the query parameters of the URL, and so does the
  comment at its call in routes.ts (``remove query parameters''): the model keeps the text
  before the first question mark.
\<close>

definition normalizeS3Url :: "string \<Rightarrow> string" where
  "normalizeS3Url url = takeWhile (\<lambda>c. c \<noteq> CHR ''?'') url"


text \<open>The id of a document fetched from a URL (\<^verbatim>\<open>uploadKnowledgeHandler\<close>, JSON branch).\<close>

definition urlKnowledgeId :: "runtime \<Rightarrow> string \<Rightarrow> string" where
  "urlKnowledgeId rt fileUrl = createUniqueUuid rt (normalizeS3Url fileUrl)"



text \<open>
  The core library's \<^verbatim>\<open>createUniqueUuid(runtime, base)\<close> returns the agent id when the
  base is the agent id and otherwise hashes \<^verbatim>\<open>base:agentId\<close> into a UUID with
  \<^verbatim>\<open>stringToUuid\<close>. \<open>uuidText\<close> stands for that hash with the hashed text kept
  readable, so that two such ids are equal exactly when the hashed texts are.
\<close>

definition uuidText :: "string \<Rightarrow> string" where
  "uuidText s = ''uuid:'' @ s"

definition coreCreateUniqueUuid :: "string \<Rightarrow> string \<Rightarrow> string" where
  "coreCreateUniqueUuid agentId base =
     (if base = agentId then agentId else uuidText (base @ '':'' @ agentId))"

section \<open>Document handlers (routes.ts)\<close>

text \<open>\<^verbatim>\<open>s.split(',')\<close>.\<close>

fun splitOn :: "char \<Rightarrow> string \<Rightarrow> string list" where
  "splitOn c [] = [[]]"
| "splitOn c (x # xs) =
     (if x = c then [] # splitOn c xs
      else (case splitOn c xs of [] \<Rightarrow> [[x]] | w # ws \<Rightarrow> (x # w) # ws))"

record docs_query =
  dq_limit :: "string option"
  dq_before :: "string option"
  dq_includeEmbedding :: "string option"
  dq_agentId :: "string option"
  dq_fileUrls :: "string option"

definition requestedFileUrls :: "docs_query \<Rightarrow> string list option" where
  "requestedFileUrls req =
     (case dq_fileUrls req of
        None \<Rightarrow> None
      | Some u \<Rightarrow>
          if u = [] then None
          else if CHR '','' \<in> set u then Some (splitOn (CHR '','') u)
          else Some [u])"

text \<open>The filter of \<^verbatim>\<open>getKnowledgeDocumentsHandler\<close> on the requested URLs.\<close>

definition matchesFileUrls :: "runtime \<Rightarrow> string list \<Rightarrow> memory \<Rightarrow> bool" where
  "matchesFileUrls rt fileUrls m =
     (let normalizedRequestUrls = map normalizeS3Url fileUrls;
          urlBasedIds = map (createUniqueUuid rt) normalizedRequestUrls
      in mem_id m \<in> set urlBasedIds \<or>
         (case mem_metadata m of
            None \<Rightarrow> False
          | Some md \<Rightarrow>
              hasProp md ''url'' \<and>
              (case getProp md ''url'' of
                 JStr u \<Rightarrow> normalizeS3Url u \<in> set normalizedRequestUrls
               | _ \<Rightarrow> False)))"

definition getKnowledgeDocumentsHandler :: "runtime \<Rightarrow> nat \<Rightarrow> docs_query \<Rightarrow> response" where
  "getKnowledgeDocumentsHandler rt now req =
     (case getService rt of
        None \<Rightarrow>
          SendError 500 ''SERVICE_NOT_FOUND''
            ''KnowledgeService not found for getKnowledgeDocumentsHandler'' None
      | Some svc \<Rightarrow>
          (let limit = (case dq_limit req of
                          None \<Rightarrow> Fin 20
                        | Some s \<Rightarrow> if s \<noteq> [] then parseInt10 s else Fin 20);
               before = (case dq_before req of
                           None \<Rightarrow> Fin (real now)
                         | Some s \<Rightarrow> if s \<noteq> [] then parseInt10 s else Fin (real now));
               includeEmbedding = (dq_includeEmbedding req = Some ''true'');
               fileUrls = requestedFileUrls req
           in case getMemories svc
                     \<lparr> gm_tableName = ''documents'', gm_count = limit, gm_end = Some before \<rparr> of
                Throws e \<Rightarrow>
                  SendError 500 ''RETRIEVAL_ERROR'' ''Failed to retrieve documents'' (Some e)
              | Returns memories \<Rightarrow>
                  (let filteredMemories =
                         (case fileUrls of
                            None \<Rightarrow> memories
                          | Some urls \<Rightarrow> filter (matchesFileUrls rt urls) memories);
                       cleanMemories =
                         (if includeEmbedding then filteredMemories
                          else map (\<lambda>memory. memory\<lparr>mem_embedding := None\<rparr>) filteredMemories)
                   in SendSuccess 200
                        (DocumentsData cleanMemories (fileUrls \<noteq> None) (length cleanMemories)
                           (case fileUrls of None \<Rightarrow> 0 | Some urls \<Rightarrow> length urls)))))"

definition getKnowledgeByIdHandler :: "runtime \<Rightarrow> string option \<Rightarrow> response" where
  "getKnowledgeByIdHandler rt knowledgeIdParam =
     (case getService rt of
        None \<Rightarrow>
          SendError 500 ''SERVICE_NOT_FOUND''
            ''KnowledgeService not found for getKnowledgeByIdHandler'' None
      | Some svc \<Rightarrow>
          (case knowledgeIdParam of
             None \<Rightarrow> SendError 400 ''INVALID_ID'' ''Invalid Knowledge ID format'' None
           | Some knowledgeId \<Rightarrow>
               if length knowledgeId < 36 then
                 SendError 400 ''INVALID_ID'' ''Invalid Knowledge ID format'' None
               else
                 (case getMemories svc
                         \<lparr> gm_tableName = ''documents'', gm_count = Fin 1000, gm_end = None \<rparr> of
                    Throws e \<Rightarrow>
                      SendError 500 ''RETRIEVAL_ERROR'' ''Failed to retrieve document'' (Some e)
                  | Returns memories \<Rightarrow>
                      (case find (\<lambda>memory. mem_id memory = knowledgeId) memories of
                         None \<Rightarrow>
                           SendError 404 ''NOT_FOUND''
                             (''Knowledge with ID '' @ knowledgeId @ '' not found'') None
                       | Some document \<Rightarrow>
                           SendSuccess 200 (DocumentData (document\<lparr>mem_embedding := None\<rparr>))))))"

section \<open>Documents, fragments and the fragment repository\<close>

text \<open>\<^verbatim>\<open>Document\<close> and \<^verbatim>\<open>KnowledgeFragment\<close> of types.ts.\<close>

record document =
  doc_id :: string
  doc_agentId :: string
  doc_worldId :: string
  doc_roomId :: string
  doc_entityId :: string
  doc_originalFilename :: string
  doc_contentType :: string
  doc_content :: string
  doc_fileSize :: nat
  doc_title :: "string option"
  doc_sourceUrl :: "string option"
  doc_createdAt :: nat
  doc_updatedAt :: nat
  doc_metadata :: "jsobject option"

record fragment =
  frag_id :: string
  frag_documentId :: string
  frag_agentId :: string
  frag_worldId :: string
  frag_roomId :: string
  frag_entityId :: string
  frag_content :: string
  frag_embedding :: "jsnum list option"
  frag_position :: nat
  frag_createdAt :: nat
  frag_metadata :: "jsobject option"

text \<open>
  The fragments table behind the repository: its rows, and the value lists of the insert
  statements that were issued on it, in order.
\<close>

record fragment_db =
  fdb_rows :: "fragment list"
  fdb_inserts :: "fragment list list"

text \<open>Modelled from the spec: \<^verbatim>\<open>FragmentRepository.createBatch\<close> of
  repositories/fragment-repository.ts, which is not among the sources; only its test is.
  The spec calls it an atomic multi-row insert that returns the inserted rows, with an
  empty output for an empty input. The spec adds that the empty input makes no round trip
  to the database, but the repository's test of the empty batch calls
  \<^verbatim>\<open>createBatch([])\<close> and expects \<^verbatim>\<open>db.insert\<close> to have been called with the
  fragments table and the result to be empty. The model follows the test: the insert
  statement is issued for every batch, the empty one included.
\<close>

definition createBatch :: "fragment list \<Rightarrow> fragment_db \<Rightarrow> fragment list \<times> fragment_db" where
  "createBatch frags db =
     (frags, db\<lparr> fdb_rows := fdb_rows db @ frags, fdb_inserts := fdb_inserts db @ [frags] \<rparr>)"


text \<open>Modelled from the spec: \<^verbatim>\<open>FragmentRepository.countByDocument\<close> (not among the
  sources): the number of fragments of the document.
\<close>

definition countByDocument :: "string \<Rightarrow> fragment_db \<Rightarrow> nat" where
  "countByDocument documentId db =
     length (filter (\<lambda>f. frag_documentId f = documentId) (fdb_rows db))"

text \<open>Modelled from the spec: \<^verbatim>\<open>FragmentRepository.deleteByDocument\<close> (not among the
  sources): deletes the fragments of the document and returns the number deleted.
\<close>

definition deleteByDocument :: "string \<Rightarrow> fragment_db \<Rightarrow> nat \<times> fragment_db" where
  "deleteByDocument documentId db =
     (countByDocument documentId db,
      db\<lparr> fdb_rows := filter (\<lambda>f. frag_documentId f \<noteq> documentId) (fdb_rows db) \<rparr>)"

text \<open>Modelled from the spec: \<^verbatim>\<open>FragmentRepository.delete\<close> (not among the sources):
  deletes the fragment with the id and, as the repository's test expects, returns true
  when a row was deleted and false when no fragment has the id.
\<close>

definition deleteFragment :: "string \<Rightarrow> fragment_db \<Rightarrow> bool \<times> fragment_db" where
  "deleteFragment fragmentId db =
     (\<not> list_all (\<lambda>f. frag_id f \<noteq> fragmentId) (fdb_rows db),
      db\<lparr> fdb_rows := filter (\<lambda>f. frag_id f \<noteq> fragmentId) (fdb_rows db) \<rparr>)"

section \<open>The knowledge engine\<close>

datatype kerror = UnsupportedContentType | EmptyOrInvalidContent | EmbeddingFailed
  | AlreadyProcessing | NotFound | PersistenceFailed

text \<open>\<^verbatim>\<open>AddKnowledgeOptions\<close> of types.ts.\<close>

record add_knowledge_options =
  ako_agentId :: "string option"
  ako_worldId :: string
  ako_roomId :: string
  ako_entityId :: string
  ako_clientDocumentId :: string
  ako_contentType :: string
  ako_originalFilename :: string
  ako_content :: string
  ako_metadata :: "jsobject option"

text \<open>
  What \<^verbatim>\<open>addKnowledge\<close> returns. \<open>documentId\<close> is the identity of the stored
  document: the field that the callers read as \<^verbatim>\<open>clientDocumentId\<close> (routes.ts) and
  as \<^verbatim>\<open>storedDocumentMemoryId\<close> (the startup-loading test).
\<close>

record add_result =
  documentId :: string
  fragmentCount :: nat

text \<open>
  The collaborators of the engine: the content extractor, the chunker, the embedding
  client and the source of fragment ids; \<open>eng_agentId\<close> is the agent of the runtime,
  used when the options name none.
\<close>

record engine =
  eng_agentId :: string
  extractText :: "string \<Rightarrow> string \<Rightarrow> kerror + string"
  chunkText :: "string \<Rightarrow> string list"
  embed :: "string list \<Rightarrow> kerror + jsnum list list"
  newFragmentId :: "string \<Rightarrow> nat \<Rightarrow> string"

record store =
  documents :: "document list"
  fragmentDb :: fragment_db

definition emptyStore :: store where
  "emptyStore = \<lparr> documents = [], fragmentDb = \<lparr> fdb_rows = [], fdb_inserts = [] \<rparr> \<rparr>"

text \<open>Modelled from the spec: the agent of an ingestion, a part of \<^verbatim>\<open>addKnowledge\<close>:
  the agent id of the options and, as the comment on that field in types.ts says, the
  runtime's agent when the options give none.
\<close>

definition optionsAgentId :: "engine \<Rightarrow> add_knowledge_options \<Rightarrow> string" where
  "optionsAgentId eng opts =
     (case ako_agentId opts of
        None \<Rightarrow> eng_agentId eng
      | Some a \<Rightarrow> if a \<noteq> [] then a else eng_agentId eng)"

text \<open>Modelled from the spec: the Document row that \<^verbatim>\<open>addKnowledge\<close> stores; identity,
  scoping ids, file name, content type, content and metadata come from the options.
\<close>

definition makeDocument :: "engine \<Rightarrow> nat \<Rightarrow> add_knowledge_options \<Rightarrow> document" where
  "makeDocument eng now opts =
     \<lparr> doc_id = ako_clientDocumentId opts, doc_agentId = optionsAgentId eng opts,
       doc_worldId = ako_worldId opts, doc_roomId = ako_roomId opts,
       doc_entityId = ako_entityId opts, doc_originalFilename = ako_originalFilename opts,
       doc_contentType = ako_contentType opts, doc_content = ako_content opts,
       doc_fileSize = length (ako_content opts), doc_title = None, doc_sourceUrl = None,
       doc_createdAt = now, doc_updatedAt = now, doc_metadata = ako_metadata opts \<rparr>"

text \<open>Modelled from the spec: the Fragment rows that \<^verbatim>\<open>addKnowledge\<close> stores. Chunk
  number \<open>i\<close> of the text gets position \<open>i\<close> (zero-based) and its embedding; the scoping
  ids are those of the document.
\<close>

definition makeFragments ::
  "engine \<Rightarrow> nat \<Rightarrow> add_knowledge_options \<Rightarrow> string list \<Rightarrow> jsnum list list \<Rightarrow> fragment list" where
  "makeFragments eng now opts chunks vectors =
     map (\<lambda>(i, (c, v)).
            \<lparr> frag_id = newFragmentId eng (ako_clientDocumentId opts) i,
              frag_documentId = ako_clientDocumentId opts,
              frag_agentId = optionsAgentId eng opts,
              frag_worldId = ako_worldId opts, frag_roomId = ako_roomId opts,
              frag_entityId = ako_entityId opts, frag_content = c,
              frag_embedding = Some v, frag_position = i, frag_createdAt = now,
              frag_metadata = ako_metadata opts \<rparr>)
         (enumerate 0 (zip chunks vectors))"

text \<open>Modelled from the spec: whether a document with this identity already exists for
  the agent, the test that makes \<^verbatim>\<open>addKnowledge\<close> idempotent.
\<close>

definition documentExists :: "string \<Rightarrow> string \<Rightarrow> store \<Rightarrow> bool" where
  "documentExists docId agent st =
     (\<not> list_all (\<lambda>d. \<not> (doc_id d = docId \<and> doc_agentId d = agent)) (documents st))"

text \<open>Modelled from the spec: the embedding of the chunks of a document. The spec says that
  an empty or white-space text yields zero fragments and zero embedding calls.
\<close>

definition embedChunks :: "engine \<Rightarrow> string list \<Rightarrow> kerror + jsnum list list" where
  "embedChunks eng chunks = (if chunks = [] then Inr [] else embed eng chunks)"

text \<open>Modelled from the spec: \<^verbatim>\<open>KnowledgeService.addKnowledge\<close> of service.ts, which is
  not among the sources. The identity of the document is the client's id. When a document
  with that identity exists for the agent, nothing is written and the existing identity
  and its current fragment count are returned. Otherwise the text is extracted, chunked
  and embedded (no embedding call for no chunks), and the document and its fragments are
  stored together; a failure before that stores nothing. The documents table is keyed by
  id, so an id held by another agent's document makes the insert fail.
\<close>

definition addKnowledge ::
  "engine \<Rightarrow> nat \<Rightarrow> add_knowledge_options \<Rightarrow> store \<Rightarrow> (kerror + add_result) \<times> store" where
  "addKnowledge eng now opts st =
     (let docId = ako_clientDocumentId opts; agent = optionsAgentId eng opts
      in if documentExists docId agent st then
           (Inr \<lparr> documentId = docId, fragmentCount = countByDocument docId (fragmentDb st) \<rparr>, st)
         else
           (case extractText eng (ako_contentType opts) (ako_content opts) of
              Inl e \<Rightarrow> (Inl e, st)
            | Inr text \<Rightarrow>
                (let chunks = chunkText eng text
                 in case embedChunks eng chunks of
                      Inl e \<Rightarrow> (Inl EmbeddingFailed, st)
                    | Inr vectors \<Rightarrow>
                        if length vectors \<noteq> length chunks then (Inl EmbeddingFailed, st)
                        else if \<not> list_all (\<lambda>d. doc_id d \<noteq> docId) (documents st) then
                          (Inl PersistenceFailed, st)
                        else
                          (case createBatch (makeFragments eng now opts chunks vectors)
                                  (fragmentDb st) of
                             (created, db') \<Rightarrow>
                               (Inr \<lparr> documentId = docId, fragmentCount = length created \<rparr>,
                                st\<lparr> documents := documents st @ [makeDocument eng now opts],
                                    fragmentDb := db' \<rparr>)))))"

text \<open>Modelled from the spec: \<^verbatim>\<open>deleteDocument\<close> (\<^verbatim>\<open>KnowledgeService.deleteMemory\<close> of
  service.ts, not among the sources): the document and all its fragments are deleted
  together, and the call succeeds whether or not the document exists.
\<close>

definition deleteDocument :: "string \<Rightarrow> store \<Rightarrow> (kerror + unit) \<times> store" where
  "deleteDocument docId st =
     (Inr (),
      st\<lparr> documents := filter (\<lambda>d. doc_id d \<noteq> docId) (documents st),
          fragmentDb := snd (deleteByDocument docId (fragmentDb st)) \<rparr>)"


text \<open>The stores that the engine's operations produce from the empty one.\<close>

inductive reachable :: "engine \<Rightarrow> store \<Rightarrow> bool" for eng :: engine where
  reachable_empty: "reachable eng emptyStore"
| reachable_add: "reachable eng st \<Longrightarrow> reachable eng (snd (addKnowledge eng now opts st))"
| reachable_delete: "reachable eng st \<Longrightarrow> reachable eng (snd (deleteDocument docId st))"

text \<open>
  The invariant of the store: document ids are distinct, every fragment belongs to a
  stored document, and the fragments of a document carry, in insertion order, the
  positions 0, 1, 2, ...
\<close>

definition fragmentsOf :: "string \<Rightarrow> store \<Rightarrow> fragment list" where
  "fragmentsOf docId st = filter (\<lambda>f. frag_documentId f = docId) (fdb_rows (fragmentDb st))"

definition storeInv :: "store \<Rightarrow> bool" where
  "storeInv st =
     (distinct (map doc_id (documents st)) \<and>
      list_all (\<lambda>f. frag_documentId f \<in> set (map doc_id (documents st)))
        (fdb_rows (fragmentDb st)) \<and>
      list_all (\<lambda>d. map frag_position (fragmentsOf (doc_id d) st)
                     = [0 ..< length (fragmentsOf (doc_id d) st)])
        (documents st))"

section \<open>Handlers that write: delete and URL upload (routes.ts)\<close>

definition errorMessage :: "kerror \<Rightarrow> string" where
  "errorMessage e =
     (case e of
        UnsupportedContentType \<Rightarrow> ''UnsupportedContentType''
      | EmptyOrInvalidContent \<Rightarrow> ''EmptyOrInvalidContent''
      | EmbeddingFailed \<Rightarrow> ''EmbeddingFailed''
      | AlreadyProcessing \<Rightarrow> ''AlreadyProcessing''
      | NotFound \<Rightarrow> ''NotFound''
      | PersistenceFailed \<Rightarrow> ''PersistenceFailed'')"

text \<open>
  \<^verbatim>\<open>deleteKnowledgeDocumentHandler\<close>; \<^verbatim>\<open>service.deleteMemory\<close> is the engine's
  \<open>deleteDocument\<close>, and an error of it is caught and answered with status 500.
\<close>

definition deleteKnowledgeDocumentHandler ::
  "runtime \<Rightarrow> string option \<Rightarrow> store \<Rightarrow> response \<times> store" where
  "deleteKnowledgeDocumentHandler rt knowledgeIdParam st =
     (case getService rt of
        None \<Rightarrow>
          (SendError 500 ''SERVICE_NOT_FOUND''
             ''KnowledgeService not found for deleteKnowledgeDocumentHandler'' None, st)
      | Some svc \<Rightarrow>
          (case knowledgeIdParam of
             None \<Rightarrow> (SendError 400 ''INVALID_ID'' ''Invalid Knowledge ID format'' None, st)
           | Some knowledgeId \<Rightarrow>
               if length knowledgeId < 36 then
                 (SendError 400 ''INVALID_ID'' ''Invalid Knowledge ID format'' None, st)
               else
                 (case deleteDocument knowledgeId st of
                    (Inl e, st') \<Rightarrow>
                      (SendError 500 ''DELETE_ERROR'' ''Failed to delete document''
                         (Some (errorMessage e)), st')
                  | (Inr u, st') \<Rightarrow> (SendSuccess 204 NullData, st'))))"

text \<open>
  The platform functions the URL branch of \<^verbatim>\<open>uploadKnowledgeHandler\<close> calls:
  \<^verbatim>\<open>new URL(url).pathname\<close>, \<^verbatim>\<open>decodeURIComponent\<close> and \<^verbatim>\<open>fetchUrlContent\<close> (which
  returns the content and its content type); each may throw.
\<close>

record web =
  urlPathname :: "string \<Rightarrow> string outcome"
  decodeURIComponent :: "string \<Rightarrow> string outcome"
  fetchUrlContent :: "string \<Rightarrow> (string \<times> string) outcome"

definition toLowerCase :: "string \<Rightarrow> string" where
  "toLowerCase s =
     map (\<lambda>c. if 65 \<le> (of_char c :: nat) \<and> (of_char c :: nat) \<le> 90
               then char_of ((of_char c :: nat) + 32) else c) s"

text \<open>The content type inferred from the file extension when the server's is generic.\<close>

definition inferContentType :: "string \<Rightarrow> string \<Rightarrow> string" where
  "inferContentType fetchedContentType originalFilename =
     (if fetchedContentType = ''application/octet-stream'' then
        (let fileExtension = toLowerCase (last (splitOn (CHR ''.'') originalFilename))
         in if fileExtension = [] then fetchedContentType
            else if fileExtension \<in> set [''pdf''] then ''application/pdf''
            else if fileExtension \<in> set [''txt'', ''text''] then ''text/plain''
            else if fileExtension \<in> set [''md'', ''markdown''] then ''text/markdown''
            else if fileExtension \<in> set [''doc'', ''docx''] then ''application/msword''
            else if fileExtension \<in> set [''html'', ''htm''] then ''text/html''
            else if fileExtension \<in> set [''json''] then ''application/json''
            else if fileExtension \<in> set [''xml''] then ''application/xml''
            else fetchedContentType)
      else fetchedContentType)"

record url_success =
  ur_id :: string
  ur_fileUrl :: string
  ur_filename :: string
  ur_createdAt :: nat
  ur_fragmentCount :: nat

datatype url_result = UrlSuccess url_success | UrlError string string

text \<open>
  The file name of a URL: the last segment of its path, \<^verbatim>\<open>document.pdf\<close> when that
  is empty.
\<close>

definition encodedFilename :: "string \<Rightarrow> string" where
  "encodedFilename pathname =
     (let lastSegment = last (splitOn (CHR ''/'') pathname)
      in if lastSegment \<noteq> [] then lastSegment else ''document.pdf'')"

text \<open>The \<^verbatim>\<open>AddKnowledgeOptions\<close> built for a fetched URL.\<close>

definition urlKnowledgeOptions ::
  "string \<Rightarrow> string \<Rightarrow> string \<Rightarrow> string \<Rightarrow> string \<Rightarrow> string \<Rightarrow> add_knowledge_options" where
  "urlKnowledgeOptions agentId knowledgeId normalizedUrl originalFilename content fetchedContentType =
     \<lparr> ako_agentId = Some agentId, ako_worldId = agentId, ako_roomId = agentId,
       ako_entityId = agentId, ako_clientDocumentId = knowledgeId,
       ako_contentType = inferContentType fetchedContentType originalFilename,
       ako_originalFilename = originalFilename, ako_content = content,
       ako_metadata = Some [(''url'', JStr normalizedUrl)] \<rparr>"

text \<open>
  The callback of \<^verbatim>\<open>fileUrls.map\<close> in \<^verbatim>\<open>uploadKnowledgeHandler\<close>, for one URL.
  Whatever throws inside is caught and reported as \<^verbatim>\<open>error_processing\<close> with the
  URL and the message.
\<close>

definition processFileUrl ::
  "web \<Rightarrow> runtime \<Rightarrow> engine \<Rightarrow> nat \<Rightarrow> string \<Rightarrow> string \<Rightarrow> store \<Rightarrow> url_result \<times> store" where
  "processFileUrl w rt eng now agentId fileUrl st =
     (let normalizedUrl = normalizeS3Url fileUrl;
          knowledgeId = createUniqueUuid rt normalizedUrl
      in case urlPathname w fileUrl of
           Throws e \<Rightarrow> (UrlError fileUrl e, st)
         | Returns pathname \<Rightarrow>
             (case decodeURIComponent w (encodedFilename pathname) of
                Throws e \<Rightarrow> (UrlError fileUrl e, st)
              | Returns originalFilename \<Rightarrow>
                  (case fetchUrlContent w fileUrl of
                     Throws e \<Rightarrow> (UrlError fileUrl e, st)
                   | Returns (content, fetchedContentType) \<Rightarrow>
                       (case addKnowledge eng now
                               (urlKnowledgeOptions agentId knowledgeId normalizedUrl
                                  originalFilename content fetchedContentType) st of
                          (Inl e, st') \<Rightarrow> (UrlError fileUrl (errorMessage e), st')
                        | (Inr result, st') \<Rightarrow>
                            (UrlSuccess
                               \<lparr> ur_id = documentId result, ur_fileUrl = fileUrl,
                                 ur_filename = originalFilename, ur_createdAt = now,
                                 ur_fragmentCount = fragmentCount result \<rparr>, st')))))"

section \<open>Example inputs\<close>

text \<open>A runtime, a service and stored rows on which the properties below are evaluated.\<close>

definition exampleDocId :: string where
  "exampleDocId = ''00000000-0000-0000-0000-000000000001''"

definition exampleFragment :: memory where
  "exampleFragment =
     \<lparr> mem_id = ''fragment-1'', mem_entityId = ''agent-1'', mem_agentId = ''agent-1'',
       mem_roomId = ''agent-1'', mem_content = JObj [(''text'', JStr ''a chunk'')],
       mem_createdAt = 5, mem_embedding = Some [Fin 1], mem_similarity = Some (Fin (9/10)),
       mem_metadata = Some [(''documentId'', JStr ''doc-gone'')] \<rparr>"

definition exampleDocument :: memory where
  "exampleDocument =
     \<lparr> mem_id = exampleDocId, mem_entityId = ''agent-1'', mem_agentId = ''agent-1'',
       mem_roomId = ''agent-1'', mem_content = JObj [(''text'', JStr ''a document'')],
       mem_createdAt = 3, mem_embedding = Some [Fin 1, Fin 0], mem_similarity = None,
       mem_metadata = Some [(''title'', JStr ''A title'')] \<rparr>"

definition exampleService :: service where
  "exampleService = \<lparr> getMemories = (\<lambda>p. Returns [exampleDocument]) \<rparr>"

definition exampleRuntime :: runtime where
  "exampleRuntime =
     \<lparr> getService = Some exampleService, rt_agentId = ''agent-1'',
       useModel = (\<lambda>t. Returns [Fin 1]),
       searchMemories = (\<lambda>p. Returns [exampleFragment]),
       getMemoryById = (\<lambda>v. Returns None),
       createUniqueUuid = coreCreateUniqueUuid ''agent-1'' \<rparr>"

definition exampleQuery :: "string \<Rightarrow> search_query" where
  "exampleQuery text = \<lparr> sq_q = Some text, sq_threshold = None, sq_limit = None, sq_agentId = None \<rparr>"

definition exampleDocsQuery :: "string option \<Rightarrow> docs_query" where
  "exampleDocsQuery includeEmbedding =
     \<lparr> dq_limit = None, dq_before = None, dq_includeEmbedding = includeEmbedding,
       dq_agentId = None, dq_fileUrls = None \<rparr>"

definition exampleEngine :: engine where
  "exampleEngine =
     \<lparr> eng_agentId = ''agent-1'',
       extractText = (\<lambda>contentType content.
          if contentType = ''image/png'' then Inl UnsupportedContentType else Inr content),
       chunkText = (\<lambda>t. if trim t = [] then [] else [take 4 t, drop 4 t]),
       embed = (\<lambda>chunks. Inr (map (\<lambda>c. [Fin (real (length c))]) chunks)),
       newFragmentId = (\<lambda>docId i. docId @ ''#'' @ showNat i) \<rparr>"

definition exampleOptions :: add_knowledge_options where
  "exampleOptions =
     \<lparr> ako_agentId = None, ako_worldId = ''agent-1'', ako_roomId = ''agent-1'',
       ako_entityId = ''agent-1'', ako_clientDocumentId = exampleDocId,
       ako_contentType = ''text/plain'', ako_originalFilename = ''api-test.txt'',
       ako_content = ''content!'', ako_metadata = Some [(''source'', JStr ''api'')] \<rparr>"

definition exampleStore :: store where
  "exampleStore = snd (addKnowledge exampleEngine 1 exampleOptions emptyStore)"

definition missingDocId :: string where
  "missingDocId = ''ffffffff-ffff-ffff-ffff-ffffffffffff''"

definition exampleWeb :: web where
  "exampleWeb =
     \<lparr> urlPathname = (\<lambda>url. Returns ''/doc.pdf''),
       decodeURIComponent = (\<lambda>s. Returns s),
       fetchUrlContent = (\<lambda>url. Returns (''content!'', ''application/octet-stream'')) \<rparr>"

definition exampleUrlStore :: store where
  "exampleUrlStore =
     snd (processFileUrl exampleWeb exampleRuntime exampleEngine 1 ''agent-1''
            ''https://example.com/doc.pdf?utm=1'' emptyStore)"


section \<open>Properties of rendering and parsing numbers\<close>










section \<open>Properties of the search handler\<close>


lemma dropWhile_all_iff: "(\<forall>x\<in>set (dropWhile P s). P x) \<longleftrightarrow> (\<forall>x\<in>set s. P x)"
  by (induction s) auto

lemma trim_empty_iff: "trim s = [] \<longleftrightarrow> (\<forall>c \<in> set s. isWhiteSpace c)"
  by (simp add: trim_def dropWhile_all_iff)










lemma limit_update_threshold [simp]:
  "searchLimit (req\<lparr>sq_threshold := t\<rparr>) = searchLimit req"
  "matchThreshold (req\<lparr>sq_limit := l\<rparr>) = matchThreshold req"
  by (simp_all add: searchLimit_def parsedLimit_def matchThreshold_def parsedThreshold_def)



text \<open>
  Claim C10. A search request whose query text is absent, empty or only white space
  makes no call on the embedding model or the memory store, and, the KnowledgeService
  being registered, is answered with status 400 and code INVALID_QUERY.
\<close>

theorem empty_query_rejected_before_any_call:
  assumes "sq_q req = None \<or> (\<exists>s. sq_q req = Some s \<and> (\<forall>c \<in> set s. isWhiteSpace c))"
  shows "snd (searchKnowledgeHandler rt req) = []
       \<and> (getService rt \<noteq> None \<longrightarrow>
            fst (searchKnowledgeHandler rt req)
              = SendError 400 ''INVALID_QUERY'' ''Search query cannot be empty'' None)"
  using assms
  by (auto simp: searchKnowledgeHandler_def trim_empty_iff split: option.splits)

theorem empty_query_rejected_witness:
  "snd (searchKnowledgeHandler exampleRuntime (exampleQuery '' '')) = []
   \<and> fst (searchKnowledgeHandler exampleRuntime (exampleQuery '' ''))
       = SendError 400 ''INVALID_QUERY'' ''Search query cannot be empty'' None
   \<and> snd (searchKnowledgeHandler exampleRuntime (exampleQuery ''cats'')) \<noteq> []"
proof -
  have h: "sq_q (exampleQuery '' '') = None
      \<or> (\<exists>s. sq_q (exampleQuery '' '') = Some s \<and> (\<forall>c \<in> set s. isWhiteSpace c))"
    by (simp add: exampleQuery_def isWhiteSpace_def)
  have s: "getService exampleRuntime \<noteq> None"
    by (simp add: exampleRuntime_def)
  have "snd (searchKnowledgeHandler exampleRuntime (exampleQuery ''cats'')) \<noteq> []"
    by (simp add: searchKnowledgeHandler_def exampleRuntime_def exampleQuery_def trim_def
        isWhiteSpace_def)
  with empty_query_rejected_before_any_call [OF h, of exampleRuntime] s show ?thesis
    by simp
qed


lemma getProp_update_same: "getProp (AList.update k v al) k = v"
  by (simp add: getProp_def update_conv')

lemma getProp_update_other: "k' \<noteq> k \<Longrightarrow> getProp (AList.update k v al) k' = getProp al k'"
  by (simp add: getProp_def update_conv')

lemma documentInfo_placeholder:
  assumes "mem_metadata fragment = Some md" "hasProp md ''documentId''"
    "getMemoryById rt (getProp md ''documentId'') = Throws e
     \<or> getMemoryById rt (getProp md ''documentId'') = Returns None"
  shows "fst (documentInfo rt fragment) = (JStr ''Unknown Document'', JStr ''unknown'')"
  using assms by (auto simp: documentInfo_def)

lemma enhanceFragment_fields:
  "res_id (fst (enhanceFragment rt fragment)) = mem_id fragment"
  "res_content (fst (enhanceFragment rt fragment)) = mem_content fragment"
  "getProp (res_metadata (fst (enhanceFragment rt fragment))) ''documentTitle''
     = fst (fst (documentInfo rt fragment))"
  "getProp (res_metadata (fst (enhanceFragment rt fragment))) ''documentFilename''
     = snd (fst (documentInfo rt fragment))"
  by (simp_all add: enhanceFragment_def getProp_update_same getProp_update_other
      split: prod.split)

lemma handler_success:
  assumes "getService rt = Some svc" "sq_q req = Some searchText" "trim searchText \<noteq> []"
    "useModel rt searchText = Returns embedding"
    "searchMemories rt (searchParams rt req searchText embedding) = Returns results"
  shows "fst (searchKnowledgeHandler rt req)
     = SendSuccess 200 (SearchData searchText (matchThreshold req)
         (map (\<lambda>f. fst (enhanceFragment rt f)) results) (length results))"
proof -
  from assms(3) have "searchText \<noteq> []" by (auto simp: trim_def)
  with assms show ?thesis
    by (simp add: searchKnowledgeHandler_def Let_def comp_def)
qed

text \<open>
  Claim C7. When the parent document of a search result is missing (the lookup returns
  nothing) or cannot be fetched (the lookup throws), the search still succeeds with all
  its results, and that result carries the placeholder title ``Unknown Document'' and the
  placeholder filename ``unknown''.
\<close>

theorem search_missing_parent_gets_placeholder:
  assumes "getService rt = Some svc" and "sq_q req = Some searchText"
    and "trim searchText \<noteq> []"
    and "useModel rt searchText = Returns embedding"
    and "searchMemories rt (searchParams rt req searchText embedding) = Returns results"
    and "i < length results"
    and "mem_metadata (results ! i) = Some md" and "hasProp md ''documentId''"
    and "getMemoryById rt (getProp md ''documentId'') = Throws e
         \<or> getMemoryById rt (getProp md ''documentId'') = Returns None"
  shows "\<exists>enhanced.
           fst (searchKnowledgeHandler rt req)
             = SendSuccess 200 (SearchData searchText (matchThreshold req) enhanced (length results))
         \<and> length enhanced = length results
         \<and> res_id (enhanced ! i) = mem_id (results ! i)
         \<and> res_content (enhanced ! i) = mem_content (results ! i)
         \<and> getProp (res_metadata (enhanced ! i)) ''documentTitle'' = JStr ''Unknown Document''
         \<and> getProp (res_metadata (enhanced ! i)) ''documentFilename'' = JStr ''unknown''"
proof -
  let ?enhanced = "map (\<lambda>f. fst (enhanceFragment rt f)) results"
  have "fst (documentInfo rt (results ! i)) = (JStr ''Unknown Document'', JStr ''unknown'')"
    using assms(7-9) by (rule documentInfo_placeholder)
  with assms(6) have "res_id (?enhanced ! i) = mem_id (results ! i)"
    "res_content (?enhanced ! i) = mem_content (results ! i)"
    "getProp (res_metadata (?enhanced ! i)) ''documentTitle'' = JStr ''Unknown Document''"
    "getProp (res_metadata (?enhanced ! i)) ''documentFilename'' = JStr ''unknown''"
    by (simp_all add: enhanceFragment_fields)
  moreover have "fst (searchKnowledgeHandler rt req)
     = SendSuccess 200 (SearchData searchText (matchThreshold req) ?enhanced (length results))"
    using assms(1-5) by (rule handler_success)
  ultimately show ?thesis
    by (intro exI [of _ ?enhanced]) simp
qed

theorem search_missing_parent_witness:
  "fst (searchKnowledgeHandler exampleRuntime (exampleQuery ''cats''))
     = SendSuccess 200 (SearchData ''cats'' (Fin (1/2))
         [\<lparr> res_id = ''fragment-1'', res_content = JObj [(''text'', JStr ''a chunk'')],
            res_similarity = Fin (9/10),
            res_metadata = [(''documentId'', JStr ''doc-gone''),
                            (''documentTitle'', JStr ''Unknown Document''),
                            (''documentFilename'', JStr ''unknown'')] \<rparr>] 1)"
proof -
  have "\<exists>enhanced.
           fst (searchKnowledgeHandler exampleRuntime (exampleQuery ''cats''))
             = SendSuccess 200 (SearchData ''cats'' (matchThreshold (exampleQuery ''cats'')) enhanced
                 (length [exampleFragment]))
         \<and> length enhanced = length [exampleFragment]
         \<and> res_id (enhanced ! 0) = mem_id ([exampleFragment] ! 0)
         \<and> res_content (enhanced ! 0) = mem_content ([exampleFragment] ! 0)
         \<and> getProp (res_metadata (enhanced ! 0)) ''documentTitle'' = JStr ''Unknown Document''
         \<and> getProp (res_metadata (enhanced ! 0)) ''documentFilename'' = JStr ''unknown''"
    by (rule search_missing_parent_gets_placeholder
          [where svc = exampleService and embedding = "[Fin 1]"
             and md = "[(''documentId'', JStr ''doc-gone'')]" and e = "[]"])
       (simp_all add: exampleRuntime_def exampleQuery_def exampleFragment_def trim_def
          isWhiteSpace_def hasProp_def getProp_def)
  then show ?thesis
    by (simp add: searchKnowledgeHandler_def exampleRuntime_def exampleQuery_def
        exampleFragment_def trim_def isWhiteSpace_def hasProp_def getProp_def
        enhanceFragment_def documentInfo_def matchThreshold_def parsedThreshold_def
        searchParams_def)
qed

section \<open>Properties of the document handlers\<close>

lemma find_in_set: "find P xs = Some x \<Longrightarrow> x \<in> set xs"
  by (induction xs) (auto split: if_splits)

lemma find_holds: "find P xs = Some x \<Longrightarrow> P x"
  by (induction xs) (auto split: if_splits)

lemma by_id_strips:
  assumes "getKnowledgeByIdHandler rt knowledgeIdParam = SendSuccess status (DocumentData document)"
  shows "mem_embedding document = None \<and>
         (\<exists>svc stored m. getService rt = Some svc
            \<and> getMemories svc \<lparr> gm_tableName = ''documents'', gm_count = Fin 1000, gm_end = None \<rparr>
                = Returns stored
            \<and> m \<in> set stored \<and> knowledgeIdParam = Some (mem_id m)
            \<and> document = m\<lparr>mem_embedding := None\<rparr>)"
  using assms
  by (auto simp: getKnowledgeByIdHandler_def dest: find_in_set find_holds
      split: option.splits outcome.splits if_splits)

lemma list_strips:
  assumes "getKnowledgeDocumentsHandler rt now req
           = SendSuccess status (DocumentsData memories urlFiltered totalFound totalRequested)"
  shows "\<exists>svc c e stored. getService rt = Some svc
            \<and> getMemories svc \<lparr> gm_tableName = ''documents'', gm_count = c, gm_end = e \<rparr>
                = Returns stored
            \<and> (if dq_includeEmbedding req = Some ''true''
                then (\<forall>d \<in> set memories. d \<in> set stored)
                else (\<forall>d \<in> set memories. mem_embedding d = None
                        \<and> (\<exists>m \<in> set stored. d = m\<lparr>mem_embedding := None\<rparr>)))"
proof -
  from assms obtain svc where svc: "getService rt = Some svc"
    by (auto simp: getKnowledgeDocumentsHandler_def split: option.splits)
  define c where "c = (case dq_limit req of None \<Rightarrow> Fin 20
                        | Some s \<Rightarrow> if s \<noteq> [] then parseInt10 s else Fin 20)"
  define e where "e = (case dq_before req of None \<Rightarrow> Fin (real now)
                         | Some s \<Rightarrow> if s \<noteq> [] then parseInt10 s else Fin (real now))"
  from assms svc obtain stored where
    stored: "getMemories svc \<lparr> gm_tableName = ''documents'', gm_count = c, gm_end = Some e \<rparr>
             = Returns stored"
    by (auto simp: getKnowledgeDocumentsHandler_def c_def e_def Let_def split: outcome.splits)
  define filtered where "filtered = (case requestedFileUrls req of None \<Rightarrow> stored
      | Some urls \<Rightarrow> filter (matchesFileUrls rt urls) stored)"
  have sub: "set filtered \<subseteq> set stored"
    by (auto simp: filtered_def split: option.splits)
  from assms svc stored have mem: "memories =
      (if dq_includeEmbedding req = Some ''true'' then filtered
       else map (\<lambda>memory. memory\<lparr>mem_embedding := None\<rparr>) filtered)"
    unfolding filtered_def c_def e_def
    by (auto simp: getKnowledgeDocumentsHandler_def Let_def)
  have "if dq_includeEmbedding req = Some ''true''
        then (\<forall>d \<in> set memories. d \<in> set stored)
        else (\<forall>d \<in> set memories. mem_embedding d = None
                \<and> (\<exists>m \<in> set stored. d = m\<lparr>mem_embedding := None\<rparr>))"
    using sub by (auto simp: mem)
  with svc stored show ?thesis by blast
qed

text \<open>
  Claim C9. The document of a get-by-id response is a stored document with its embedding
  removed and every other field unchanged. The documents of a list response are stored
  documents, each with its embedding removed and every other field unchanged, unless the
  query parameter \<^verbatim>\<open>includeEmbedding\<close> is exactly the string \<^verbatim>\<open>true\<close>, in which
  case they are returned as stored.
\<close>

theorem document_responses_strip_embedding:
  "(getKnowledgeByIdHandler rt knowledgeIdParam = SendSuccess status (DocumentData document) \<longrightarrow>
      mem_embedding document = None \<and>
      (\<exists>svc stored m. getService rt = Some svc
         \<and> getMemories svc \<lparr> gm_tableName = ''documents'', gm_count = Fin 1000, gm_end = None \<rparr>
             = Returns stored
         \<and> m \<in> set stored \<and> knowledgeIdParam = Some (mem_id m)
         \<and> document = m\<lparr>mem_embedding := None\<rparr>))
   \<and> (getKnowledgeDocumentsHandler rt now req
         = SendSuccess status' (DocumentsData memories urlFiltered totalFound totalRequested) \<longrightarrow>
      (\<exists>svc c e stored. getService rt = Some svc
         \<and> getMemories svc \<lparr> gm_tableName = ''documents'', gm_count = c, gm_end = e \<rparr>
             = Returns stored
         \<and> (if dq_includeEmbedding req = Some ''true''
             then (\<forall>d \<in> set memories. d \<in> set stored)
             else (\<forall>d \<in> set memories. mem_embedding d = None
                     \<and> (\<exists>m \<in> set stored. d = m\<lparr>mem_embedding := None\<rparr>)))))"
  using by_id_strips [of rt knowledgeIdParam status document]
    list_strips [of rt now req status' memories urlFiltered totalFound totalRequested]
  by blast

lemma example_by_id:
  "getKnowledgeByIdHandler exampleRuntime (Some exampleDocId)
     = SendSuccess 200 (DocumentData (exampleDocument\<lparr>mem_embedding := None\<rparr>))"
  by (simp add: getKnowledgeByIdHandler_def exampleRuntime_def exampleService_def
      exampleDocument_def exampleDocId_def)

lemma example_list:
  "getKnowledgeDocumentsHandler exampleRuntime 7 (exampleDocsQuery None)
     = SendSuccess 200 (DocumentsData [exampleDocument\<lparr>mem_embedding := None\<rparr>] False 1 0)"
  "getKnowledgeDocumentsHandler exampleRuntime 7 (exampleDocsQuery (Some ''true''))
     = SendSuccess 200 (DocumentsData [exampleDocument] False 1 0)"
  "getKnowledgeDocumentsHandler exampleRuntime 7 (exampleDocsQuery (Some ''TRUE''))
     = SendSuccess 200 (DocumentsData [exampleDocument\<lparr>mem_embedding := None\<rparr>] False 1 0)"
  by (simp_all add: getKnowledgeDocumentsHandler_def exampleRuntime_def exampleService_def
      exampleDocsQuery_def requestedFileUrls_def)

theorem document_responses_strip_embedding_witness:
  "getKnowledgeByIdHandler exampleRuntime (Some exampleDocId)
     = SendSuccess 200 (DocumentData (exampleDocument\<lparr>mem_embedding := None\<rparr>))
   \<and> getKnowledgeDocumentsHandler exampleRuntime 7 (exampleDocsQuery (Some ''TRUE''))
     = SendSuccess 200 (DocumentsData [exampleDocument\<lparr>mem_embedding := None\<rparr>] False 1 0)
   \<and> mem_embedding exampleDocument \<noteq> None
   \<and> mem_embedding (exampleDocument\<lparr>mem_embedding := None\<rparr>) = None"
  using document_responses_strip_embedding
    [of exampleRuntime "Some exampleDocId" 200 "exampleDocument\<lparr>mem_embedding := None\<rparr>"
        7 "exampleDocsQuery (Some ''TRUE'')" 200 "[exampleDocument\<lparr>mem_embedding := None\<rparr>]"
        False 1 0]
    example_by_id example_list(3)
  by (simp add: exampleDocument_def)

section \<open>Properties of the knowledge store\<close>

lemma createBatch_rows: "fdb_rows (snd (createBatch frags db)) = fdb_rows db @ frags"
  by (simp add: createBatch_def)

lemma createBatch_result: "fst (createBatch frags db) = frags"
  by (simp add: createBatch_def)

lemma makeFragments_documentId:
  "f \<in> set (makeFragments eng now opts chunks vectors) \<Longrightarrow>
     frag_documentId f = ako_clientDocumentId opts"
  by (auto simp: makeFragments_def)

lemma makeFragments_positions:
  "map frag_position (makeFragments eng now opts chunks vectors)
     = [0 ..< length (makeFragments eng now opts chunks vectors)]"
proof -
  have "map frag_position (makeFragments eng now opts chunks vectors)
          = map fst (enumerate 0 (zip chunks vectors))"
    by (simp add: makeFragments_def case_prod_unfold comp_def)
  then show ?thesis
    by (simp add: makeFragments_def)
qed

lemma addKnowledge_existing:
  "documentExists (ako_clientDocumentId opts) (optionsAgentId eng opts) st \<Longrightarrow>
     addKnowledge eng now opts st
       = (Inr \<lparr> documentId = ako_clientDocumentId opts,
                fragmentCount = countByDocument (ako_clientDocumentId opts) (fragmentDb st) \<rparr>, st)"
  by (simp add: addKnowledge_def documentExists_def Let_def)

lemma addKnowledge_error_keeps_store:
  "addKnowledge eng now opts st = (Inl e, st') \<Longrightarrow> st' = st"
  by (auto simp: addKnowledge_def Let_def split: if_splits sum.splits prod.splits)

lemma addKnowledge_success_cases:
  assumes "addKnowledge eng now opts st = (Inr r, st')"
  shows "(documentExists (ako_clientDocumentId opts) (optionsAgentId eng opts) st \<and> st' = st
          \<and> r = \<lparr> documentId = ako_clientDocumentId opts,
                  fragmentCount = countByDocument (ako_clientDocumentId opts) (fragmentDb st) \<rparr>)
       \<or> (\<exists>chunks vectors.
            ako_clientDocumentId opts \<notin> set (map doc_id (documents st))
          \<and> st' = st\<lparr> documents := documents st @ [makeDocument eng now opts],
                       fragmentDb := snd (createBatch (makeFragments eng now opts chunks vectors)
                                            (fragmentDb st)) \<rparr>
          \<and> r = \<lparr> documentId = ako_clientDocumentId opts,
                  fragmentCount = length (makeFragments eng now opts chunks vectors) \<rparr>)"
proof (cases "documentExists (ako_clientDocumentId opts) (optionsAgentId eng opts) st")
  case True
  with assms show ?thesis by (auto simp: addKnowledge_existing)
next
  case False
  have "\<exists>chunks vectors.
            ako_clientDocumentId opts \<notin> set (map doc_id (documents st))
          \<and> st' = st\<lparr> documents := documents st @ [makeDocument eng now opts],
                       fragmentDb := snd (createBatch (makeFragments eng now opts chunks vectors)
                                            (fragmentDb st)) \<rparr>
          \<and> r = \<lparr> documentId = ako_clientDocumentId opts,
                  fragmentCount = length (makeFragments eng now opts chunks vectors) \<rparr>"
  proof (cases "extractText eng (ako_contentType opts) (ako_content opts)")
    case (Inl e)
    with assms False show ?thesis
      by (simp add: addKnowledge_def documentExists_def Let_def)
  next
    case (Inr extracted)
    show ?thesis
    proof (cases "embedChunks eng (chunkText eng extracted)")
      case (Inl e)
      with assms False Inr show ?thesis
        by (simp add: addKnowledge_def documentExists_def Let_def)
    next
      case vec: (Inr vectors)
      with assms False Inr
      have "ako_clientDocumentId opts \<notin> set (map doc_id (documents st))"
        and "st' = st\<lparr> documents := documents st @ [makeDocument eng now opts],
                       fragmentDb := snd (createBatch
                                            (makeFragments eng now opts (chunkText eng extracted) vectors)
                                            (fragmentDb st)) \<rparr>"
        and "r = \<lparr> documentId = ako_clientDocumentId opts,
                  fragmentCount = length (makeFragments eng now opts (chunkText eng extracted) vectors) \<rparr>"
        by (auto simp: addKnowledge_def documentExists_def Let_def list_all_iff
            case_prod_unfold createBatch_result split: if_splits)
      then show ?thesis by blast
    qed
  qed
  then show ?thesis by blast
qed

lemma makeDocument_fields:
  "doc_id (makeDocument eng now opts) = ako_clientDocumentId opts"
  "doc_agentId (makeDocument eng now opts) = optionsAgentId eng opts"
  by (simp_all add: makeDocument_def)

lemma addKnowledge_success_exists:
  assumes "addKnowledge eng now opts st = (Inr r, st')"
  shows "documentExists (ako_clientDocumentId opts) (optionsAgentId eng opts) st'"
    and "documentId r = ako_clientDocumentId opts"
  using addKnowledge_success_cases [OF assms]
  by (auto simp: documentExists_def list_all_iff makeDocument_fields)

lemma storeInv_empty: "storeInv emptyStore"
  by (simp add: storeInv_def emptyStore_def)

lemma fragmentsOf_absent:
  assumes "storeInv st" "docId \<notin> set (map doc_id (documents st))"
  shows "fragmentsOf docId st = []"
  using assms by (auto simp: storeInv_def fragmentsOf_def list_all_iff filter_empty_conv)

lemma storeInv_insert:
  assumes inv: "storeInv st"
    and fresh: "doc_id d \<notin> set (map doc_id (documents st))"
    and own: "\<And>f. f \<in> set frags \<Longrightarrow> frag_documentId f = doc_id d"
    and pos: "map frag_position frags = [0 ..< length frags]"
  shows "storeInv (st\<lparr> documents := documents st @ [d],
                       fragmentDb := snd (createBatch frags (fragmentDb st)) \<rparr>)"
proof -
  let ?st' = "st\<lparr> documents := documents st @ [d],
                  fragmentDb := snd (createBatch frags (fragmentDb st)) \<rparr>"
  have rows: "fdb_rows (fragmentDb ?st') = fdb_rows (fragmentDb st) @ frags"
    by (simp add: createBatch_rows)
  have new: "filter (\<lambda>f. frag_documentId f = doc_id d) frags = frags"
    using own by (simp add: filter_id_conv)
  have old_none: "fragmentsOf (doc_id d) st = []"
    using inv fresh by (rule fragmentsOf_absent)
  have of_new: "fragmentsOf (doc_id d) ?st' = frags"
    using old_none new by (simp add: fragmentsOf_def createBatch_rows)
  have of_old: "fragmentsOf (doc_id d') ?st' = fragmentsOf (doc_id d') st"
    if "d' \<in> set (documents st)" for d'
  proof -
    from that have "doc_id d' \<in> set (map doc_id (documents st))" by simp
    with fresh have "doc_id d' \<noteq> doc_id d" by metis
    with own have "filter (\<lambda>f. frag_documentId f = doc_id d') frags = []"
      by (auto simp: filter_empty_conv)
    then show ?thesis by (simp add: fragmentsOf_def createBatch_rows)
  qed
  have "distinct (map doc_id (documents ?st'))"
    using inv fresh by (simp add: storeInv_def)
  moreover have "list_all (\<lambda>f. frag_documentId f \<in> set (map doc_id (documents ?st')))
                   (fdb_rows (fragmentDb ?st'))"
    using inv own by (auto simp: storeInv_def list_all_iff createBatch_rows)
  moreover have "list_all (\<lambda>d. map frag_position (fragmentsOf (doc_id d) ?st')
                     = [0 ..< length (fragmentsOf (doc_id d) ?st')]) (documents ?st')"
    using inv pos by (auto simp: storeInv_def list_all_iff of_new of_old)
  ultimately show ?thesis
    unfolding storeInv_def by blast
qed

lemma storeInv_addKnowledge:
  assumes "storeInv st"
  shows "storeInv (snd (addKnowledge eng now opts st))"
proof (cases "addKnowledge eng now opts st")
  case (Pair res st')
  show ?thesis
  proof (cases res)
    case (Inl e)
    with Pair assms show ?thesis by (auto dest: addKnowledge_error_keeps_store)
  next
    case (Inr r)
    with Pair addKnowledge_success_cases [of eng now opts st r st']
    consider "st' = st"
      | chunks vectors where
          "ako_clientDocumentId opts \<notin> set (map doc_id (documents st))"
          "st' = st\<lparr> documents := documents st @ [makeDocument eng now opts],
                       fragmentDb := snd (createBatch (makeFragments eng now opts chunks vectors)
                                            (fragmentDb st)) \<rparr>"
      by auto
    then show ?thesis
    proof cases
      case 1
      with Pair assms show ?thesis by simp
    next
      case 2
      have "storeInv st'"
        unfolding 2(2)
        by (rule storeInv_insert [OF assms])
           (use 2(1) in \<open>simp_all add: makeDocument_fields makeFragments_documentId
              makeFragments_positions\<close>)
      with Pair show ?thesis by simp
    qed
  qed
qed

lemma fragmentsOf_delete:
  "fragmentsOf d (snd (deleteDocument docId st))
     = (if d = docId then [] else fragmentsOf d st)"
  by (auto simp: fragmentsOf_def deleteDocument_def deleteByDocument_def filter_empty_conv
      intro: filter_cong)

lemma storeInv_deleteDocument:
  assumes "storeInv st"
  shows "storeInv (snd (deleteDocument docId st))"
proof -
  let ?st' = "snd (deleteDocument docId st)"
  have docs: "documents ?st' = filter (\<lambda>d. doc_id d \<noteq> docId) (documents st)"
    and rows: "fdb_rows (fragmentDb ?st')
                 = filter (\<lambda>f. frag_documentId f \<noteq> docId) (fdb_rows (fragmentDb st))"
    by (simp_all add: deleteDocument_def deleteByDocument_def)
  have "distinct (map doc_id (documents ?st'))"
    using assms by (simp add: storeInv_def docs distinct_map_filter)
  moreover have "list_all (\<lambda>f. frag_documentId f \<in> set (map doc_id (documents ?st')))
                   (fdb_rows (fragmentDb ?st'))"
    using assms by (auto simp: storeInv_def list_all_iff docs rows)
  moreover have "list_all (\<lambda>d. map frag_position (fragmentsOf (doc_id d) ?st')
                     = [0 ..< length (fragmentsOf (doc_id d) ?st')]) (documents ?st')"
    using assms by (auto simp: storeInv_def list_all_iff docs fragmentsOf_delete)
  ultimately show ?thesis
    unfolding storeInv_def by blast
qed

lemma reachable_storeInv: "reachable eng st \<Longrightarrow> storeInv st"
  by (induction rule: reachable.induct)
     (simp_all add: storeInv_empty storeInv_addKnowledge storeInv_deleteDocument)

lemma deleteDocument_absent:
  assumes "storeInv st" "docId \<notin> set (map doc_id (documents st))"
  shows "deleteDocument docId st = (Inr (), st)"
proof -
  have "filter (\<lambda>d. doc_id d \<noteq> docId) (documents st) = documents st"
    using assms(2) by (auto simp: filter_id_conv)
  moreover have "filter (\<lambda>f. frag_documentId f \<noteq> docId) (fdb_rows (fragmentDb st))
                   = fdb_rows (fragmentDb st)"
    using assms by (auto simp: filter_id_conv storeInv_def list_all_iff)
  ultimately show ?thesis
    by (simp add: deleteDocument_def deleteByDocument_def)
qed


lemma example_url_first:
  "processFileUrl exampleWeb exampleRuntime exampleEngine 1 ''agent-1''
     ''https://example.com/doc.pdf?utm=1'' emptyStore
   = (UrlSuccess \<lparr> ur_id = ''uuid:https://example.com/doc.pdf:agent-1'',
                    ur_fileUrl = ''https://example.com/doc.pdf?utm=1'',
                    ur_filename = ''doc.pdf'', ur_createdAt = 1, ur_fragmentCount = 2 \<rparr>,
      exampleUrlStore)"
  by code_simp








text \<open>
  Claim C4. Deleting a document id that does not exist succeeds and changes nothing:
  \<^verbatim>\<open>deleteDocument\<close> returns success with the store unchanged, and so the delete handler
  answers an id of UUID length with status 204 and the store unchanged. Deleting a
  fragment id that does not exist returns false and leaves the table unchanged.
\<close>

theorem delete_missing_document_is_noop:
  assumes "reachable eng st" and "docId \<notin> set (map doc_id (documents st))"
  shows "deleteDocument docId st = (Inr (), st)
       \<and> (getService rt \<noteq> None \<longrightarrow> 36 \<le> length docId \<longrightarrow>
            deleteKnowledgeDocumentHandler rt (Some docId) st = (SendSuccess 204 NullData, st))
       \<and> (list_all (\<lambda>f. frag_id f \<noteq> fragmentId) (fdb_rows db) \<longrightarrow>
            deleteFragment fragmentId db = (False, db))"
proof -
  have "deleteDocument docId st = (Inr (), st)"
    using reachable_storeInv [OF assms(1)] assms(2) by (rule deleteDocument_absent)
  moreover have "deleteFragment fragmentId db = (False, db)"
    if "list_all (\<lambda>f. frag_id f \<noteq> fragmentId) (fdb_rows db)"
    using that by (simp add: deleteFragment_def list_all_iff filter_id_conv)
  ultimately show ?thesis
    by (auto simp: deleteKnowledgeDocumentHandler_def)
qed

lemma delete_handler_rejects_short_id:
  "getService rt \<noteq> None \<Longrightarrow> length docId < 36 \<Longrightarrow>
     deleteKnowledgeDocumentHandler rt (Some docId) st
       = (SendError 400 ''INVALID_ID'' ''Invalid Knowledge ID format'' None, st)"
  by (auto simp: deleteKnowledgeDocumentHandler_def)

theorem delete_missing_document_witness:
  "deleteDocument missingDocId exampleStore = (Inr (), exampleStore)
   \<and> deleteKnowledgeDocumentHandler exampleRuntime (Some missingDocId) exampleStore
       = (SendSuccess 204 NullData, exampleStore)
   \<and> deleteFragment ''no-such-fragment'' (fragmentDb exampleStore)
       = (False, fragmentDb exampleStore)
   \<and> documents exampleStore \<noteq> []
   \<and> fdb_rows (fragmentDb exampleStore) \<noteq> []"
proof -
  have r: "reachable exampleEngine exampleStore"
    unfolding exampleStore_def by (rule reachable_add [OF reachable_empty])
  have m: "missingDocId \<notin> set (map doc_id (documents exampleStore))"
    "documents exampleStore \<noteq> []"
    "fdb_rows (fragmentDb exampleStore) \<noteq> []"
    "list_all (\<lambda>f. frag_id f \<noteq> ''no-such-fragment'') (fdb_rows (fragmentDb exampleStore))"
    by code_simp+
  have l: "36 \<le> length missingDocId" "getService exampleRuntime \<noteq> None"
    by (simp_all add: missingDocId_def exampleRuntime_def)
  from delete_missing_document_is_noop
         [OF r m(1), where rt = exampleRuntime and fragmentId = "''no-such-fragment''"
            and db = "fragmentDb exampleStore"] m(2-4) l
  show ?thesis by simp
qed



section \<open>Properties of the document identities\<close>






lemma normalizeS3Url_query:
  assumes "CHR ''?'' \<notin> set base"
  shows "normalizeS3Url (base @ ''?'' @ q) = base" and "normalizeS3Url base = base"
proof -
  from assms have all: "\<And>c. c \<in> set base \<Longrightarrow> c \<noteq> CHR ''?''" by auto
  then show "normalizeS3Url (base @ ''?'' @ q) = base"
    by (simp add: normalizeS3Url_def takeWhile_append2)
  from all show "normalizeS3Url base = base"
    by (simp add: normalizeS3Url_def)
qed

lemma processFileUrl_success:
  assumes "processFileUrl w rt eng now agentId fileUrl st = (UrlSuccess r, st')"
  shows "\<exists>opts result. addKnowledge eng now opts st = (Inr result, st')
           \<and> ako_clientDocumentId opts = urlKnowledgeId rt fileUrl
           \<and> ako_agentId opts = Some agentId
           \<and> ur_id r = documentId result"
proof -
  from assms obtain pathname originalFilename content contentType result where
    "addKnowledge eng now
       (urlKnowledgeOptions agentId (urlKnowledgeId rt fileUrl) (normalizeS3Url fileUrl)
          originalFilename content contentType) st = (Inr result, st')"
    "ur_id r = documentId result"
    by (auto simp: processFileUrl_def Let_def urlKnowledgeId_def
        split: outcome.splits prod.splits sum.splits)
  then show ?thesis
    by (intro exI [of _ "urlKnowledgeOptions agentId (urlKnowledgeId rt fileUrl)
          (normalizeS3Url fileUrl) originalFilename content contentType"] exI [of _ result])
       (simp add: urlKnowledgeOptions_def)
qed

lemma processFileUrl_id:
  assumes "processFileUrl w rt eng now agentId fileUrl st = (UrlSuccess r, st')"
  shows "ur_id r = urlKnowledgeId rt fileUrl"
    and "documentExists (urlKnowledgeId rt fileUrl)
           (if agentId \<noteq> [] then agentId else eng_agentId eng) st'"
proof -
  from processFileUrl_success [OF assms] obtain opts result where
    add: "addKnowledge eng now opts st = (Inr result, st')"
    and opts: "ako_clientDocumentId opts = urlKnowledgeId rt fileUrl" "ako_agentId opts = Some agentId"
    and r: "ur_id r = documentId result"
    by blast
  from addKnowledge_success_exists [OF add] opts r
  show "ur_id r = urlKnowledgeId rt fileUrl"
    and "documentExists (urlKnowledgeId rt fileUrl)
           (if agentId \<noteq> [] then agentId else eng_agentId eng) st'"
    by (simp_all add: optionsAgentId_def)
qed

lemma processFileUrl_existing:
  assumes "documentExists (urlKnowledgeId rt fileUrl)
             (if agentId \<noteq> [] then agentId else eng_agentId eng) st"
    and "urlPathname w fileUrl = Returns pathname"
    and "decodeURIComponent w (encodedFilename pathname) = Returns originalFilename"
    and "fetchUrlContent w fileUrl = Returns (content, contentType)"
  shows "processFileUrl w rt eng now agentId fileUrl st
           = (UrlSuccess \<lparr> ur_id = urlKnowledgeId rt fileUrl, ur_fileUrl = fileUrl,
                            ur_filename = originalFilename, ur_createdAt = now,
                            ur_fragmentCount
                              = countByDocument (urlKnowledgeId rt fileUrl) (fragmentDb st) \<rparr>, st)"
proof -
  let ?opts = "urlKnowledgeOptions agentId (urlKnowledgeId rt fileUrl) (normalizeS3Url fileUrl)
                 originalFilename content contentType"
  have "documentExists (ako_clientDocumentId ?opts) (optionsAgentId eng ?opts) st"
    using assms(1) by (simp add: urlKnowledgeOptions_def optionsAgentId_def)
  then have "addKnowledge eng now ?opts st
      = (Inr \<lparr> documentId = urlKnowledgeId rt fileUrl,
               fragmentCount = countByDocument (urlKnowledgeId rt fileUrl) (fragmentDb st) \<rparr>, st)"
    by (simp add: addKnowledge_existing urlKnowledgeOptions_def)
  with assms(2-4) show ?thesis
    by (simp add: processFileUrl_def Let_def urlKnowledgeId_def)
qed

text \<open>
  Claim C5. Two URLs that differ only in their query parameters get the same document
  identity, and when the first has been ingested, ingesting the second (its content
  fetched) returns the identity of the first ingestion and leaves the store unchanged.
\<close>

theorem url_query_parameters_do_not_change_identity:
  assumes "CHR ''?'' \<notin> set base"
  shows "urlKnowledgeId rt (base @ ''?'' @ q1) = urlKnowledgeId rt (base @ ''?'' @ q2)
       \<and> urlKnowledgeId rt (base @ ''?'' @ q1) = urlKnowledgeId rt base
       \<and> (processFileUrl w rt eng now1 agentId (base @ ''?'' @ q1) st = (UrlSuccess r1, st1) \<longrightarrow>
          urlPathname w (base @ ''?'' @ q2) = Returns pathname \<longrightarrow>
          decodeURIComponent w (encodedFilename pathname) = Returns originalFilename \<longrightarrow>
          fetchUrlContent w (base @ ''?'' @ q2) = Returns (content, contentType) \<longrightarrow>
          processFileUrl w rt eng now2 agentId (base @ ''?'' @ q2) st1
            = (UrlSuccess \<lparr> ur_id = ur_id r1, ur_fileUrl = base @ ''?'' @ q2,
                             ur_filename = originalFilename, ur_createdAt = now2,
                             ur_fragmentCount = countByDocument (ur_id r1) (fragmentDb st1) \<rparr>,
               st1))"
proof -
  have same: "urlKnowledgeId rt (base @ ''?'' @ q1) = urlKnowledgeId rt (base @ ''?'' @ q2)"
    and bare: "urlKnowledgeId rt (base @ ''?'' @ q1) = urlKnowledgeId rt base"
    using assms by (simp_all add: urlKnowledgeId_def normalizeS3Url_query del: append.simps)
  have "processFileUrl w rt eng now2 agentId (base @ ''?'' @ q2) st1
            = (UrlSuccess \<lparr> ur_id = ur_id r1, ur_fileUrl = base @ ''?'' @ q2,
                             ur_filename = originalFilename, ur_createdAt = now2,
                             ur_fragmentCount = countByDocument (ur_id r1) (fragmentDb st1) \<rparr>,
               st1)"
    if first: "processFileUrl w rt eng now1 agentId (base @ ''?'' @ q1) st = (UrlSuccess r1, st1)"
      and web: "urlPathname w (base @ ''?'' @ q2) = Returns pathname"
        "decodeURIComponent w (encodedFilename pathname) = Returns originalFilename"
        "fetchUrlContent w (base @ ''?'' @ q2) = Returns (content, contentType)"
  proof -
    from processFileUrl_id [OF first] same
    have id: "ur_id r1 = urlKnowledgeId rt (base @ ''?'' @ q2)"
      and ex: "documentExists (urlKnowledgeId rt (base @ ''?'' @ q2))
                 (if agentId \<noteq> [] then agentId else eng_agentId eng) st1"
      by simp_all
    from processFileUrl_existing [OF ex web, where now = now2] id show ?thesis
      by simp
  qed
  with same bare show ?thesis by blast
qed

lemma example_url_second_web:
  "urlPathname exampleWeb (''https://example.com/doc.pdf'' @ ''?'' @ ''utm=2'') = Returns ''/doc.pdf''"
  "decodeURIComponent exampleWeb (encodedFilename ''/doc.pdf'') = Returns ''doc.pdf''"
  "fetchUrlContent exampleWeb (''https://example.com/doc.pdf'' @ ''?'' @ ''utm=2'')
     = Returns (''content!'', ''application/octet-stream'')"
  by code_simp+

theorem url_query_parameters_witness:
  "processFileUrl exampleWeb exampleRuntime exampleEngine 2 ''agent-1''
     ''https://example.com/doc.pdf?utm=2'' exampleUrlStore
   = (UrlSuccess \<lparr> ur_id = ''uuid:https://example.com/doc.pdf:agent-1'',
                    ur_fileUrl = ''https://example.com/doc.pdf?utm=2'',
                    ur_filename = ''doc.pdf'', ur_createdAt = 2, ur_fragmentCount = 2 \<rparr>,
      exampleUrlStore)
   \<and> urlKnowledgeId exampleRuntime ''https://example.com/doc.pdf?utm=1''
     = urlKnowledgeId exampleRuntime ''https://example.com/doc.pdf?utm=2''"
proof -
  have b: "CHR ''?'' \<notin> set ''https://example.com/doc.pdf''"
    by simp
  have f: "processFileUrl exampleWeb exampleRuntime exampleEngine 1 ''agent-1''
             (''https://example.com/doc.pdf'' @ ''?'' @ ''utm=1'') emptyStore
           = (UrlSuccess \<lparr> ur_id = ''uuid:https://example.com/doc.pdf:agent-1'',
                    ur_fileUrl = ''https://example.com/doc.pdf?utm=1'',
                    ur_filename = ''doc.pdf'', ur_createdAt = 1, ur_fragmentCount = 2 \<rparr>,
              exampleUrlStore)"
    using example_url_first by simp
  have c: "countByDocument ''uuid:https://example.com/doc.pdf:agent-1'' (fragmentDb exampleUrlStore) = 2"
    by code_simp
  from url_query_parameters_do_not_change_identity
         [OF b, where rt = exampleRuntime and ?q1.0 = "''utm=1''" and ?q2.0 = "''utm=2''"
            and w = exampleWeb and eng = exampleEngine and ?now1.0 = 1 and agentId = "''agent-1''"
            and st = emptyStore and ?st1.0 = exampleUrlStore and pathname = "''/doc.pdf''"
            and originalFilename = "''doc.pdf''" and content = "''content!''"
            and contentType = "''application/octet-stream''" and ?now2.0 = 2]
       f example_url_second_web c
  show ?thesis by simp
qed






end
